theory Spec2Isabelle
  imports Main
begin

section \<open>Values of the Go program\<close>

text \<open>
  A Go \<^verbatim>\<open>error\<close> built by \<^verbatim>\<open>fmt.Errorf\<close>: either a plain message, or a
  message prefix followed by the wrapped error (\<^verbatim>\<open>%w\<close> as the last verb).
\<close>

datatype go_error = Errorf string | Wrapf string go_error

fun Error_text :: "go_error \<Rightarrow> string" where
  "Error_text (Errorf m) = m"
| "Error_text (Wrapf p e) = p @ Error_text e"

fun Unwrap :: "go_error \<Rightarrow> go_error option" where
  "Unwrap (Errorf m) = None"
| "Unwrap (Wrapf p e) = Some e"

text \<open>
  A \<^verbatim>\<open>*credentials.Credentials\<close> is the address of a credentials object, or nil
  (\<open>None\<close>).
\<close>

type_synonym Credentials_ptr = "nat option"

text \<open>
  An \<^verbatim>\<open>interface{}\<close> value as \<^verbatim>\<open>atomic.Value\<close> holds it: the nil interface, a
  \<^verbatim>\<open>*credentials.Credentials\<close> (which may be a nil pointer of that type), or a
  value of some other dynamic type, named by a tag.
\<close>

datatype iface = Nil_iface | Creds_iface Credentials_ptr | Other_iface nat

datatype dyn_type = Creds_type | Other_type nat

fun type_of_iface :: "iface \<Rightarrow> dyn_type option" where
  "type_of_iface Nil_iface = None"
| "type_of_iface (Creds_iface p) = Some Creds_type"
| "type_of_iface (Other_iface t) = Some (Other_type t)"

text \<open>
  The result of a call that has effects on the world outside the program (a state of type
  \<open>'w\<close>: the network, the clock, the logger's sink): it returns a value and the new
  world, or it panics.
\<close>

datatype ('a, 'w) res = Returns 'a 'w | Panics

text \<open>The key/value arguments of one \<^verbatim>\<open>logger.Log\<close> call.\<close>

datatype keyval = KStr string | KErr go_error

section \<open>Configuration (Config, Option, WithLogger, WithPeriod)\<close>

text \<open>
  A \<^verbatim>\<open>log.Logger\<close> is what its \<^verbatim>\<open>Log\<close> method does to the world with the
  key/value list it is given; the error \<^verbatim>\<open>Log\<close> returns is dropped by every caller
  here. The logger is taken to be a non-nil \<^verbatim>\<open>log.Logger\<close> whose \<^verbatim>\<open>Log\<close>
  returns. A \<^verbatim>\<open>time.Duration\<close> is a number of nanoseconds.
\<close>

type_synonym 'w Logger = "keyval list \<Rightarrow> 'w \<Rightarrow> 'w"

record 'w Config =
  logger :: "'w Logger"
  period :: int

type_synonym 'w Option = "'w Config \<Rightarrow> 'w Config"

definition NewNopLogger :: "'w Logger" where
  "NewNopLogger = (\<lambda>kvs w. w)"

definition Minute :: int where
  "Minute = 60 * 1000000000"

definition WithLogger :: "'w Logger \<Rightarrow> 'w Option" where
  "WithLogger l = (\<lambda>c. c\<lparr>logger := l\<rparr>)"

definition WithPeriod :: "int \<Rightarrow> 'w Option" where
  "WithPeriod p = (\<lambda>c. c\<lparr>period := p\<rparr>)"

text \<open>\<^verbatim>\<open>for _, opt := range opts { opt(&conf) }\<close>\<close>

fun apply_opts :: "'w Option list \<Rightarrow> 'w Config \<Rightarrow> 'w Config" where
  "apply_opts [] c = c"
| "apply_opts (opt # opts) c = apply_opts opts (opt c)"

definition default_conf :: "'w Config" where
  "default_conf = \<lparr>logger = NewNopLogger, period = 55 * Minute\<rparr>"

section \<open>The SDK's credentials object and atomic.Value\<close>

text \<open>
  \<^verbatim>\<open>(*credentials.Credentials).Get\<close> belongs to the AWS SDK. For a credentials object
  at address \<open>c\<close> it is a parameter of the model: \<open>Get c w\<close> gives the error it
  returns (\<open>None\<close> for nil) and the new world; the \<^verbatim>\<open>Value\<close> it returns is dropped
  by every caller here. On a nil receiver the method reads a field of the receiver, which
  is a nil dereference: it panics.
\<close>

type_synonym 'w Get_fn = "nat \<Rightarrow> 'w \<Rightarrow> go_error option \<times> 'w"

definition creds_Get :: "'w Get_fn \<Rightarrow> Credentials_ptr \<Rightarrow> 'w \<Rightarrow> (go_error option, 'w) res" where
  "creds_Get Get p w =
     (case p of
        None \<Rightarrow> Panics
      | Some c \<Rightarrow> (case Get c w of (err, w') \<Rightarrow> Returns err w'))"

text \<open>
  \<^verbatim>\<open>atomic.Value\<close>: \<^verbatim>\<open>Load\<close> returns the value of the most recent \<^verbatim>\<open>Store\<close>, or
  the nil interface when there was none. \<^verbatim>\<open>Store(x)\<close> panics on the nil interface and
  on a value whose dynamic type differs from that of the first store (\<open>None\<close>).
\<close>

definition Load :: "iface \<Rightarrow> iface" where
  "Load cell = cell"

definition Store :: "iface \<Rightarrow> iface \<Rightarrow> iface option" where
  "Store cell x =
     (if type_of_iface x = None then None
      else if type_of_iface cell \<noteq> None \<and> type_of_iface cell \<noteq> type_of_iface x then None
      else Some x)"

section \<open>Refresher (refresher.go)\<close>

record 'w Refresher =
  conf :: "'w Config"
  creds :: Credentials_ptr

definition NewRefresher ::
  "'w Get_fn \<Rightarrow> Credentials_ptr \<Rightarrow> 'w Option list \<Rightarrow> 'w \<Rightarrow> (go_error + 'w Refresher, 'w) res" where
  "NewRefresher Get cr opts w =
     (if cr = None then Returns (Inl (Errorf ''creds cannot be nil'')) w
      else
        let r = \<lparr>conf = apply_opts opts default_conf, creds = cr\<rparr> in
        (case creds_Get Get cr w of
           Panics \<Rightarrow> Panics
         | Returns (Some err) w' \<Rightarrow>
             Returns (Inl (Wrapf ''failed to retrieve credentials value: '' err)) w'
         | Returns None w' \<Rightarrow> Returns (Inr r) w'))"

text \<open>
  The loop of \<^verbatim>\<open>Run\<close> is a \<^verbatim>\<open>select\<close> between the context's \<^verbatim>\<open>Done\<close> channel and
  a fresh timer. The list given to the model says which case each successive
  \<^verbatim>\<open>select\<close> takes; when the list is used up the loop is still waiting in its
  \<^verbatim>\<open>select\<close>.
\<close>

datatype select_case = ctx_Done | time_After

datatype ('a, 'w) run = Returned 'a 'w | Waiting 'a 'w | Panicked

fun Refresher_Run ::
  "'w Get_fn \<Rightarrow> 'w Refresher \<Rightarrow> select_case list \<Rightarrow> 'w \<Rightarrow> ('w Refresher, 'w) run" where
  "Refresher_Run Get r [] w = Waiting r w"
| "Refresher_Run Get r (ctx_Done # cs) w = Returned r w"
| "Refresher_Run Get r (time_After # cs) w =
     (case creds_Get Get (Refresher.creds r) w of
        Panics \<Rightarrow> Panicked
      | Returns (Some err) w' \<Rightarrow>
          Refresher_Run Get r cs
            (logger (Refresher.conf r)
               [KStr ''msg'', KStr ''failed to refresh aws credentials'', KStr ''err'', KErr err] w')
      | Returns None w' \<Rightarrow> Refresher_Run Get r cs w')"

section \<open>Swapper\<close>

text \<open>
  \<^verbatim>\<open>NewCreds\<close>: a function value (nil is \<open>None\<close> where one is passed) that returns a
  credentials pointer and an error, with its effect on the world.
\<close>

type_synonym 'w NewCreds = "'w \<Rightarrow> (Credentials_ptr \<times> go_error option) \<times> 'w"

record 'w Swapper =
  conf :: "'w Config"
  newcreds :: "'w NewCreds"
  cache :: iface

definition refresh ::
  "'w Get_fn \<Rightarrow> 'w Swapper \<Rightarrow> 'w \<Rightarrow> (go_error option \<times> 'w Swapper, 'w) res" where
  "refresh Get s w =
     (case newcreds s w of
        ((cr, Some err), w1) \<Rightarrow>
          Returns (Some (Wrapf ''failed to create new credentials: '' err), s) w1
      | ((cr, None), w1) \<Rightarrow>
          (case creds_Get Get cr w1 of
             Panics \<Rightarrow> Panics
           | Returns (Some err) w2 \<Rightarrow>
               Returns (Some (Wrapf ''failed to retrieve credentials value: '' err), s) w2
           | Returns None w2 \<Rightarrow>
               (case Store (cache s) (Creds_iface cr) of
                  None \<Rightarrow> Panics
                | Some v \<Rightarrow> Returns (None, s\<lparr>cache := v\<rparr>) w2)))"

definition NewSwapper ::
  "'w Get_fn \<Rightarrow> 'w NewCreds option \<Rightarrow> 'w Option list \<Rightarrow> 'w \<Rightarrow> (go_error + 'w Swapper, 'w) res" where
  "NewSwapper Get nc opts w =
     (case nc of
        None \<Rightarrow> Returns (Inl (Errorf ''newcreds cannot be nil'')) w
      | Some f \<Rightarrow>
          let s = \<lparr>conf = apply_opts opts default_conf, newcreds = f, cache = Nil_iface\<rparr> in
          (case refresh Get s w of
             Panics \<Rightarrow> Panics
           | Returns (Some err, s') w' \<Rightarrow> Returns (Inl err) w'
           | Returns (None, s') w' \<Rightarrow> Returns (Inr s') w'))"

fun Swapper_Run ::
  "'w Get_fn \<Rightarrow> 'w Swapper \<Rightarrow> select_case list \<Rightarrow> 'w \<Rightarrow> ('w Swapper, 'w) run" where
  "Swapper_Run Get s [] w = Waiting s w"
| "Swapper_Run Get s (ctx_Done # cs) w = Returned s w"
| "Swapper_Run Get s (time_After # cs) w =
     (case refresh Get s w of
        Panics \<Rightarrow> Panicked
      | Returns (Some err, s') w' \<Rightarrow>
          Swapper_Run Get s' cs
            (logger (Swapper.conf s')
               [KStr ''msg'', KStr ''failed to refresh aws credentials'', KStr ''err'', KErr err] w')
      | Returns (None, s') w' \<Rightarrow> Swapper_Run Get s' cs w')"

section \<open>Attach: the client's signing pipeline and the signing hook\<close>

text \<open>
  The fields of \<^verbatim>\<open>v4.Signer\<close> that a signer option can set. \<^verbatim>\<open>Credentials\<close> is
  the one the hook writes.
\<close>

record Signer =
  Credentials :: Credentials_ptr
  DisableHeaderHoisting :: bool
  DisableURIPathEscaping :: bool
  UnsignedPayload :: bool

text \<open>
  A signer option \<^verbatim>\<open>func(*v4.Signer)\<close>: one the caller passes to \<^verbatim>\<open>Attach\<close>, or the
  closure \<^verbatim>\<open>Attach\<close> appends. That closure holds the Swapper's pointer and reads its
  cache and logger when it is called, so the model hands it the Swapper's state of that
  moment.
\<close>

datatype signer_opt = Caller_opt "Signer \<Rightarrow> Signer" | Swap_opt

datatype handler_fn = Sign_fn "signer_opt list" | Other_fn nat

record NamedHandler =
  Name :: string
  Fn :: handler_fn

text \<open>
  A \<^verbatim>\<open>client.Client\<close>: the list \<^verbatim>\<open>Handlers.Sign\<close> and the credentials of its
  \<^verbatim>\<open>Config\<close>, which a new signer starts with.
\<close>

record Client =
  Sign :: "NamedHandler list"
  Config_Credentials :: Credentials_ptr

definition SignRequestHandler_Name :: string where
  "SignRequestHandler_Name = ''v4.SignRequestHandler''"

text \<open>
  Modelled from the spec: \<^verbatim>\<open>HandlerList.SwapNamed\<close> and \<^verbatim>\<open>v4.BuildNamedHandler\<close>
  are the SDK's and not part of the sources. The spec has \<^verbatim>\<open>Attach\<close> install the
  hook into the named "sign request" step and return false when the client has no step
  of that name: \<open>SwapNamed\<close> gives every handler of the list that carries the name the
  new function and reports whether there was one; \<open>BuildNamedHandler\<close> is the handler
  of that name that builds a signer and calls the options on it in order.
\<close>

fun SwapNamed :: "NamedHandler list \<Rightarrow> NamedHandler \<Rightarrow> NamedHandler list \<times> bool" where
  "SwapNamed [] n = ([], False)"
| "SwapNamed (h # l) n =
     (case SwapNamed l n of
        (l', swapped) \<Rightarrow>
          if Name h = Name n then (h\<lparr>Fn := Fn n\<rparr> # l', True) else (h # l', swapped))"

definition BuildNamedHandler :: "string \<Rightarrow> signer_opt list \<Rightarrow> NamedHandler" where
  "BuildNamedHandler name opts = \<lparr>Name = name, Fn = Sign_fn opts\<rparr>"

text \<open>The type assertion \<^verbatim>\<open>creds, ok := v.(*credentials.Credentials)\<close>.\<close>

fun assert_Credentials :: "iface \<Rightarrow> Credentials_ptr \<times> bool" where
  "assert_Credentials (Creds_iface p) = (p, True)"
| "assert_Credentials v = (None, False)"

text \<open>The closure that \<^verbatim>\<open>Attach\<close> appends to the options.\<close>

definition swap_hook :: "'w Swapper \<Rightarrow> Signer \<Rightarrow> 'w \<Rightarrow> Signer \<times> 'w" where
  "swap_hook s signer w =
     (let v = Load (cache s) in
      case assert_Credentials v of
        (cr, ok) \<Rightarrow>
          if cr \<noteq> None \<and> ok then (signer\<lparr>Credentials := cr\<rparr>, w)
          else (signer, logger (Swapper.conf s) [KStr ''msg'', KStr ''failed to swap aws credentials''] w))"

text \<open>
  \<^verbatim>\<open>Attach\<close> has a pointer receiver; the model returns the Swapper beside the result
  and the client, so that what it does to the Swapper can be stated.
\<close>

definition Attach :: "'w Swapper \<Rightarrow> Client \<Rightarrow> signer_opt list \<Rightarrow> bool \<times> Client \<times> 'w Swapper" where
  "Attach s c opts =
     (let opts' = opts @ [Swap_opt] in
      case SwapNamed (Sign c) (BuildNamedHandler SignRequestHandler_Name opts') of
        (l, swapped) \<Rightarrow> (swapped, c\<lparr>Sign := l\<rparr>, s))"


definition NewSigner :: "Credentials_ptr \<Rightarrow> Signer" where
  "NewSigner cr =
     \<lparr>Credentials = cr, DisableHeaderHoisting = False, DisableURIPathEscaping = False,
      UnsignedPayload = False\<rparr>"

section \<open>A concrete world for the examples\<close>

text \<open>
  The world of the examples counts the calls of the credentials factory and keeps what the
  logger was given. The factory's first call makes the credentials at address 2, the
  second fails, the third makes the credentials at 3, the fourth those at 4, and every
  later one returns a nil pointer with a nil error. \<open>Get\<close> fails on the credentials at
  an odd address.
\<close>

type_synonym demo_world = "nat \<times> keyval list list"

definition demo_newcreds :: "demo_world NewCreds" where
  "demo_newcreds w =
     ((if fst w = 0 then (Some 2, None)
       else if fst w = 1 then (None, Some (Errorf ''no session''))
       else if fst w = 2 then (Some 3, None)
       else if fst w = 3 then (Some 4, None)
       else (None, None)),
      (Suc (fst w), snd w))"

definition demo_Get :: "demo_world Get_fn" where
  "demo_Get c w = (if odd c then Some (Errorf ''expired token'') else None, w)"

definition demo_logger :: "demo_world Logger" where
  "demo_logger kvs w = (fst w, snd w @ [kvs])"

definition demo_swapper :: "demo_world Swapper" where
  "demo_swapper =
     \<lparr>conf = \<lparr>logger = demo_logger, period = 55 * Minute\<rparr>, newcreds = demo_newcreds,
      cache = Creds_iface (Some 2)\<rparr>"

definition demo_signer :: Signer where
  "demo_signer = NewSigner (Some 7)"

definition demo_empty :: "demo_world Swapper" where
  "demo_empty = demo_swapper\<lparr>cache := Nil_iface\<rparr>"

definition demo_refresher :: "demo_world Refresher" where
  "demo_refresher = \<lparr>Refresher.conf = \<lparr>logger = demo_logger, period = 55 * Minute\<rparr>, creds = Some 3\<rparr>"

definition demo_client :: Client where
  "demo_client =
     \<lparr>Sign = [\<lparr>Name = ''core.BuildContentLengthHandler'', Fn = Other_fn 0\<rparr>,
              \<lparr>Name = ''v4.SignRequestHandler'', Fn = Sign_fn []\<rparr>],
      Config_Credentials = Some 7\<rparr>"

definition demo_client_v2 :: Client where
  "demo_client_v2 =
     \<lparr>Sign = [\<lparr>Name = ''v2.SignRequestHandler'', Fn = Other_fn 1\<rparr>], Config_Credentials = Some 7\<rparr>"


section \<open>Facts about the operations\<close>

lemma refresh_factory_error:
  "newcreds s w = ((cr, Some e), w1) \<Longrightarrow>
   refresh Get s w = Returns (Some (Wrapf ''failed to create new credentials: '' e), s) w1"
  by (simp add: refresh_def)

lemma refresh_Get_error:
  "newcreds s w = ((Some c, None), w1) \<Longrightarrow> Get c w1 = (Some e, w2) \<Longrightarrow>
   refresh Get s w = Returns (Some (Wrapf ''failed to retrieve credentials value: '' e), s) w2"
  by (simp add: refresh_def creds_Get_def)

lemma refresh_nil_panics:
  "newcreds s w = ((None, None), w1) \<Longrightarrow> refresh Get s w = Panics"
  by (simp add: refresh_def creds_Get_def)

lemma Store_Creds:
  "Store cell (Creds_iface p) = (case cell of Other_iface t \<Rightarrow> None | _ \<Rightarrow> Some (Creds_iface p))"
  by (cases cell) (simp_all add: Store_def)

lemma refresh_success:
  "newcreds s w = ((Some c, None), w1) \<Longrightarrow> Get c w1 = (None, w2) \<Longrightarrow>
   cache s = Nil_iface \<or> cache s = Creds_iface p \<Longrightarrow>
   refresh Get s w = Returns (None, s\<lparr>cache := Creds_iface (Some c)\<rparr>) w2"
  by (auto simp: refresh_def creds_Get_def Store_Creds)

lemma refresh_error_same:
  "refresh Get s w = Returns (Some err, s') w' \<Longrightarrow> s' = s"
  by (auto simp: refresh_def creds_Get_def split: prod.splits option.splits res.splits)

lemma refresh_ok_published:
  "refresh Get s w = Returns (None, s') w' \<Longrightarrow>
   \<exists>c w1. newcreds s w = ((Some c, None), w1) \<and> Get c w1 = (None, w') \<and>
          s' = s\<lparr>cache := Creds_iface (Some c)\<rparr>"
  by (auto simp: refresh_def creds_Get_def Store_Creds split: prod.splits option.splits res.splits iface.splits)

lemma swap_hook_hit:
  "cache s = Creds_iface (Some c) \<Longrightarrow> swap_hook s signer w = (signer\<lparr>Credentials := Some c\<rparr>, w)"
  by (simp add: swap_hook_def Load_def)

lemma swap_hook_miss:
  "\<forall>c. cache s \<noteq> Creds_iface (Some c) \<Longrightarrow>
   swap_hook s signer w =
     (signer, logger (Swapper.conf s) [KStr ''msg'', KStr ''failed to swap aws credentials''] w)"
  by (cases "cache s") (auto simp: swap_hook_def Load_def)


lemma SwapNamed_eq:
  "SwapNamed l n =
     (map (\<lambda>h. if Name h = Name n then h\<lparr>Fn := Fn n\<rparr> else h) l, \<exists>h \<in> set l. Name h = Name n)"
  by (induction l) (auto split: prod.splits)





lemma Swapper_Run_cache:
  "Swapper_Run Get s cs w = Waiting s' w' \<or> Swapper_Run Get s cs w = Returned s' w' \<Longrightarrow>
   \<exists>c. cache s = Creds_iface (Some c) \<Longrightarrow> \<exists>c. cache s' = Creds_iface (Some c)"
proof (induction cs arbitrary: s w)
  case Nil
  then show ?case by simp
next
  case (Cons x cs)
  show ?case
  proof (cases x)
    case ctx_Done
    with Cons.prems show ?thesis by simp
  next
    case time_After
    show ?thesis
    proof (cases "refresh Get s w")
      case Panics
      with Cons.prems time_After show ?thesis by simp
    next
      case (Returns rs w1)
      obtain r s1 where rs: "rs = (r, s1)" by (cases rs)
      have inv: "\<exists>c. cache s1 = Creds_iface (Some c)"
      proof (cases r)
        case None
        with Returns rs refresh_ok_published [of Get s w s1 w1] show ?thesis by auto
      next
        case (Some err)
        with Returns rs refresh_error_same [of Get s w err s1 w1] Cons.prems(2) show ?thesis by simp
      qed
      show ?thesis
      proof (cases r)
        case None
        with Returns rs time_After Cons.prems(1) Cons.IH [OF _ inv] show ?thesis by simp
      next
        case (Some err)
        with Returns rs time_After Cons.prems(1) Cons.IH [OF _ inv] show ?thesis by simp
      qed
    qed
  qed
qed

lemma NewSwapper_Inr:
  "NewSwapper Get nc opts w = Returns (Inr s) w' \<Longrightarrow>
   \<exists>F c w1. nc = Some F \<and> F w = ((Some c, None), w1) \<and> Get c w1 = (None, w') \<and>
     s = \<lparr>Swapper.conf = apply_opts opts default_conf, newcreds = F, cache = Creds_iface (Some c)\<rparr>"
  apply (cases nc)
   apply (simp add: NewSwapper_def)
  apply (auto simp: NewSwapper_def Let_def split: res.splits prod.splits option.splits dest!: refresh_ok_published)
  done


lemma SwapNamed_absent:
  "\<forall>h \<in> set l. Name h \<noteq> Name n \<Longrightarrow> SwapNamed l n = (l, False)"
  by (induction l) simp_all




subsection \<open>The examples, evaluated\<close>

lemma demo_NewSwapper:
  "NewSwapper demo_Get (Some demo_newcreds) [WithLogger demo_logger] (0, []) =
     Returns (Inr demo_swapper) (1, [])"
  by (simp add: NewSwapper_def refresh_def creds_Get_def Store_def demo_newcreds_def demo_Get_def
      demo_swapper_def default_conf_def WithLogger_def)

lemma demo_refresh_Get_error:
  "refresh demo_Get demo_swapper (2, []) =
     Returns (Some (Wrapf ''failed to retrieve credentials value: '' (Errorf ''expired token'')),
              demo_swapper) (3, [])"
  by (simp add: refresh_def demo_swapper_def demo_newcreds_def creds_Get_def demo_Get_def)

lemma demo_three_ticks:
  "Swapper_Run demo_Get demo_swapper [time_After, time_After, time_After] (1, []) =
     Waiting (demo_swapper\<lparr>cache := Creds_iface (Some 4)\<rparr>)
       (4, [[KStr ''msg'', KStr ''failed to refresh aws credentials'', KStr ''err'',
             KErr (Wrapf ''failed to create new credentials: '' (Errorf ''no session''))],
            [KStr ''msg'', KStr ''failed to refresh aws credentials'', KStr ''err'',
             KErr (Wrapf ''failed to retrieve credentials value: '' (Errorf ''expired token''))]])"
  by (simp add: refresh_def creds_Get_def Store_def demo_newcreds_def demo_Get_def
      demo_swapper_def demo_logger_def)



section \<open>Construction with a nil argument\<close>

text \<open>
  C5. \<^verbatim>\<open>NewSwapper\<close> with a nil factory and \<^verbatim>\<open>NewRefresher\<close> with a nil credentials
  pointer return at once with no instance and the errors "newcreds cannot be nil" and
  "creds cannot be nil". The world is the one they were called in: nothing was fetched,
  whatever \<open>Get\<close> would do, and no loop ran.
\<close>

theorem nil_argument_fails_at_once:
  "NewSwapper Get None opts w = Returns (Inl (Errorf ''newcreds cannot be nil'')) w \<and>
   NewRefresher Get None ropts w = Returns (Inl (Errorf ''creds cannot be nil'')) w"
  by (simp add: NewSwapper_def NewRefresher_def)

section \<open>Construction with a factory\<close>

text \<open>
  C2. For a non-nil factory \<open>F\<close>, \<^verbatim>\<open>NewSwapper\<close> returns a Swapper (and a nil error)
  exactly when the call of \<open>F\<close> in the world of the construction returns a nil error
  and \<^verbatim>\<open>Get\<close> on the credentials it returned returns a nil error; the Swapper then
  holds the configured options, the factory and those credentials in its cache. When the
  factory returns an error, or \<^verbatim>\<open>Get\<close> does, \<^verbatim>\<open>NewSwapper\<close> returns no Swapper
  and that error, wrapped.
\<close>

theorem NewSwapper_succeeds_iff:
  "((\<exists>s w'. NewSwapper Get (Some F) opts w = Returns (Inr s) w') \<longleftrightarrow>
      (\<exists>c w1 w2. F w = ((Some c, None), w1) \<and> Get c w1 = (None, w2))) \<and>
   (F w = ((cr, Some e), w1) \<longrightarrow>
      NewSwapper Get (Some F) opts w =
        Returns (Inl (Wrapf ''failed to create new credentials: '' e)) w1) \<and>
   (F w = ((Some c, None), w1) \<and> Get c w1 = (Some e, w2) \<longrightarrow>
      NewSwapper Get (Some F) opts w =
        Returns (Inl (Wrapf ''failed to retrieve credentials value: '' e)) w2) \<and>
   (F w = ((Some c, None), w1) \<and> Get c w1 = (None, w2) \<longrightarrow>
      NewSwapper Get (Some F) opts w =
        Returns (Inr \<lparr>Swapper.conf = apply_opts opts default_conf, newcreds = F,
                      cache = Creds_iface (Some c)\<rparr>) w2)"
proof (intro conjI impI iffI)
  assume "\<exists>s w'. NewSwapper Get (Some F) opts w = Returns (Inr s) w'"
  then obtain s w' where "NewSwapper Get (Some F) opts w = Returns (Inr s) w'" by blast
  from NewSwapper_Inr [OF this]
  show "\<exists>c w1 w2. F w = ((Some c, None), w1) \<and> Get c w1 = (None, w2)" by auto
next
  assume "\<exists>c w1 w2. F w = ((Some c, None), w1) \<and> Get c w1 = (None, w2)"
  then obtain c w1 w2 where "F w = ((Some c, None), w1)" "Get c w1 = (None, w2)" by blast
  then have "NewSwapper Get (Some F) opts w =
      Returns (Inr \<lparr>Swapper.conf = apply_opts opts default_conf, newcreds = F,
                    cache = Creds_iface (Some c)\<rparr>) w2"
    by (simp add: NewSwapper_def refresh_def creds_Get_def Store_def)
  then show "\<exists>s w'. NewSwapper Get (Some F) opts w = Returns (Inr s) w'" by blast
next
  assume "F w = ((cr, Some e), w1)"
  then show "NewSwapper Get (Some F) opts w =
      Returns (Inl (Wrapf ''failed to create new credentials: '' e)) w1"
    by (simp add: NewSwapper_def refresh_def)
next
  assume "F w = ((Some c, None), w1) \<and> Get c w1 = (Some e, w2)"
  then show "NewSwapper Get (Some F) opts w =
      Returns (Inl (Wrapf ''failed to retrieve credentials value: '' e)) w2"
    by (simp add: NewSwapper_def refresh_def creds_Get_def)
next
  assume "F w = ((Some c, None), w1) \<and> Get c w1 = (None, w2)"
  then show "NewSwapper Get (Some F) opts w =
      Returns (Inr \<lparr>Swapper.conf = apply_opts opts default_conf, newcreds = F,
                    cache = Creds_iface (Some c)\<rparr>) w2"
    by (simp add: NewSwapper_def refresh_def creds_Get_def Store_def)
qed

theorem NewSwapper_succeeds_iff_witness:
  "NewSwapper demo_Get (Some demo_newcreds) [WithLogger demo_logger] (0, []) = Returns (Inr demo_swapper) (1, []) \<and>
   NewSwapper demo_Get (Some demo_newcreds) [WithLogger demo_logger] (1, []) =
     Returns (Inl (Wrapf ''failed to create new credentials: '' (Errorf ''no session''))) (2, []) \<and>
   NewSwapper demo_Get (Some demo_newcreds) [WithLogger demo_logger] (2, []) =
     Returns (Inl (Wrapf ''failed to retrieve credentials value: '' (Errorf ''expired token''))) (3, [])"
proof -
  note T = NewSwapper_succeeds_iff [where Get = demo_Get and F = demo_newcreds and opts = "[WithLogger demo_logger]"]
  have a: "demo_newcreds (0, []) = ((Some 2, None), (1, [])) \<and> demo_Get 2 (1, []) = (None, (1, []))"
    by (simp add: demo_newcreds_def demo_Get_def)
  have b: "demo_newcreds (1, []) = ((None, Some (Errorf ''no session'')), (2, []))"
    by (simp add: demo_newcreds_def)
  have c: "demo_newcreds (2, []) = ((Some 3, None), (3, [])) \<and>
      demo_Get 3 (3, []) = (Some (Errorf ''expired token''), (3, []))"
    by (simp add: demo_newcreds_def demo_Get_def)
  have d: "\<lparr>Swapper.conf = apply_opts [WithLogger demo_logger] default_conf, newcreds = demo_newcreds,
      cache = Creds_iface (Some 2)\<rparr> = demo_swapper"
    by (simp add: demo_swapper_def default_conf_def WithLogger_def)
  have r1: "NewSwapper demo_Get (Some demo_newcreds) [WithLogger demo_logger] (0, []) = Returns (Inr demo_swapper) (1, [])"
    using T [of "(0, [])" _ _ "(1, [])" 2 "(1, [])"] a d by simp
  have r2: "NewSwapper demo_Get (Some demo_newcreds) [WithLogger demo_logger] (1, []) =
     Returns (Inl (Wrapf ''failed to create new credentials: '' (Errorf ''no session''))) (2, [])"
    using T [of "(1, [])" None "Errorf ''no session''" "(2, [])"] b by blast
  have r3: "NewSwapper demo_Get (Some demo_newcreds) [WithLogger demo_logger] (2, []) =
     Returns (Inl (Wrapf ''failed to retrieve credentials value: '' (Errorf ''expired token''))) (3, [])"
    using T [of "(2, [])" _ "Errorf ''expired token''" "(3, [])" 3 "(3, [])"] c by blast
  from r1 r2 r3 show ?thesis by blast
qed

section \<open>A refresh that fails\<close>

text \<open>
  C1. When the factory returns an error, \<^verbatim>\<open>refresh\<close> returns that error wrapped
  ("failed to create new credentials: ...") and the Swapper is the one it was called on;
  when \<^verbatim>\<open>Get\<close> on the new credentials returns an error, it returns that error
  wrapped ("failed to retrieve credentials value: ...") and again the Swapper is
  unchanged. When both succeed the new credentials pointer is stored in the cache, and a
  \<^verbatim>\<open>refresh\<close> that returned nil did store the pointer of a factory call and a
  \<^verbatim>\<open>Get\<close> that both succeeded. A tick of \<^verbatim>\<open>Run\<close> whose refresh fails logs the
  error and leaves the Swapper as it was, so the signing hook afterwards reads what it would
  have read before the tick.
\<close>

theorem failed_refresh_keeps_cache:
  "(newcreds s w = ((cr, Some e), w1) \<longrightarrow>
      refresh Get s w = Returns (Some (Wrapf ''failed to create new credentials: '' e), s) w1) \<and>
   (newcreds s w = ((Some c, None), w1) \<and> Get c w1 = (Some e, w2) \<longrightarrow>
      refresh Get s w = Returns (Some (Wrapf ''failed to retrieve credentials value: '' e), s) w2) \<and>
   (newcreds s w = ((Some c, None), w1) \<and> Get c w1 = (None, w2) \<and>
    (cache s = Nil_iface \<or> cache s = Creds_iface p) \<longrightarrow>
      refresh Get s w = Returns (None, s\<lparr>cache := Creds_iface (Some c)\<rparr>) w2) \<and>
   (refresh Get s w = Returns (Some err, s') w' \<longrightarrow>
      s' = s \<and>
      Swapper_Run Get s [time_After] w =
        Waiting s (logger (Swapper.conf s)
          [KStr ''msg'', KStr ''failed to refresh aws credentials'', KStr ''err'', KErr err] w') \<and>
      swap_hook s' signer w3 = swap_hook s signer w3) \<and>
   (refresh Get s w = Returns (None, s') w' \<longrightarrow>
      (\<exists>c1 w1. newcreds s w = ((Some c1, None), w1) \<and> Get c1 w1 = (None, w') \<and>
         s' = s\<lparr>cache := Creds_iface (Some c1)\<rparr>))"
proof (intro conjI impI)
  assume "newcreds s w = ((cr, Some e), w1)"
  then show "refresh Get s w = Returns (Some (Wrapf ''failed to create new credentials: '' e), s) w1"
    by (rule refresh_factory_error)
next
  assume "newcreds s w = ((Some c, None), w1) \<and> Get c w1 = (Some e, w2)"
  then show "refresh Get s w =
      Returns (Some (Wrapf ''failed to retrieve credentials value: '' e), s) w2"
    by (simp add: refresh_Get_error)
next
  assume "newcreds s w = ((Some c, None), w1) \<and> Get c w1 = (None, w2) \<and>
    (cache s = Nil_iface \<or> cache s = Creds_iface p)"
  then show "refresh Get s w = Returns (None, s\<lparr>cache := Creds_iface (Some c)\<rparr>) w2"
    using refresh_success [of s w c w1 Get w2 p] by blast
next
  assume r: "refresh Get s w = Returns (Some err, s') w'"
  then show same: "s' = s" by (rule refresh_error_same)
  from r same show "Swapper_Run Get s [time_After] w =
      Waiting s (logger (Swapper.conf s)
        [KStr ''msg'', KStr ''failed to refresh aws credentials'', KStr ''err'', KErr err] w')"
    by simp
  from same show "swap_hook s' signer w3 = swap_hook s signer w3" by simp
next
  assume "refresh Get s w = Returns (None, s') w'"
  then show "\<exists>c1 w1. newcreds s w = ((Some c1, None), w1) \<and> Get c1 w1 = (None, w') \<and>
      s' = s\<lparr>cache := Creds_iface (Some c1)\<rparr>"
    by (rule refresh_ok_published)
qed

theorem failed_refresh_keeps_cache_witness:
  "refresh demo_Get demo_swapper (1, []) =
     Returns (Some (Wrapf ''failed to create new credentials: '' (Errorf ''no session'')), demo_swapper) (2, []) \<and>
   refresh demo_Get demo_swapper (2, []) =
     Returns (Some (Wrapf ''failed to retrieve credentials value: '' (Errorf ''expired token'')), demo_swapper) (3, []) \<and>
   refresh demo_Get demo_swapper (3, []) =
     Returns (None, demo_swapper\<lparr>cache := Creds_iface (Some 4)\<rparr>) (4, []) \<and>
   Swapper_Run demo_Get demo_swapper [time_After] (1, []) =
     Waiting demo_swapper (2, [[KStr ''msg'', KStr ''failed to refresh aws credentials'', KStr ''err'',
        KErr (Wrapf ''failed to create new credentials: '' (Errorf ''no session''))]]) \<and>
   swap_hook demo_swapper demo_signer (2, []) = (demo_signer\<lparr>Credentials := Some 2\<rparr>, (2, []))"
proof -
  have f: "newcreds demo_swapper (1, []) = ((None, Some (Errorf ''no session'')), (2, []))"
    by (simp add: demo_swapper_def demo_newcreds_def)
  have g: "newcreds demo_swapper (2, []) = ((Some 3, None), (3, [])) \<and>
      demo_Get 3 (3, []) = (Some (Errorf ''expired token''), (3, []))"
    by (simp add: demo_swapper_def demo_newcreds_def demo_Get_def)
  have h: "newcreds demo_swapper (3, []) = ((Some 4, None), (4, [])) \<and>
      demo_Get 4 (4, []) = (None, (4, [])) \<and>
      (cache demo_swapper = Nil_iface \<or> cache demo_swapper = Creds_iface (Some 2))"
    by (simp add: demo_swapper_def demo_newcreds_def demo_Get_def)
  note T = failed_refresh_keeps_cache
  have r1: "refresh demo_Get demo_swapper (1, []) =
     Returns (Some (Wrapf ''failed to create new credentials: '' (Errorf ''no session'')), demo_swapper) (2, [])"
    using T [of demo_swapper "(1, [])" None "Errorf ''no session''" "(2, [])"] f by blast
  have r2: "refresh demo_Get demo_swapper (2, []) =
     Returns (Some (Wrapf ''failed to retrieve credentials value: '' (Errorf ''expired token'')), demo_swapper) (3, [])"
    using T [of demo_swapper "(2, [])" _ "Errorf ''expired token''" "(3, [])" demo_Get 3 "(3, [])"] g by blast
  have r3: "refresh demo_Get demo_swapper (3, []) =
     Returns (None, demo_swapper\<lparr>cache := Creds_iface (Some 4)\<rparr>) (4, [])"
    using T [of demo_swapper "(3, [])" _ _ "(4, [])" demo_Get 4 "(4, [])" "Some 2"] h by blast
  have r4: "Swapper_Run demo_Get demo_swapper [time_After] (1, []) =
     Waiting demo_swapper (logger (Swapper.conf demo_swapper)
       [KStr ''msg'', KStr ''failed to refresh aws credentials'', KStr ''err'',
        KErr (Wrapf ''failed to create new credentials: '' (Errorf ''no session''))] (2, []))"
    using T [of demo_swapper "(1, [])" _ _ _ demo_Get _ _ _
        "Wrapf ''failed to create new credentials: '' (Errorf ''no session'')" demo_swapper "(2, [])"] r1
    by blast
  have r5: "swap_hook demo_swapper demo_signer (2, []) = (demo_signer\<lparr>Credentials := Some 2\<rparr>, (2, []))"
    by (simp add: swap_hook_def demo_swapper_def Load_def)
  from r4 have r4': "Swapper_Run demo_Get demo_swapper [time_After] (1, []) =
     Waiting demo_swapper (2, [[KStr ''msg'', KStr ''failed to refresh aws credentials'', KStr ''err'',
        KErr (Wrapf ''failed to create new credentials: '' (Errorf ''no session''))]])"
    by (simp add: demo_swapper_def demo_logger_def)
  from r1 r2 r3 r4' r5 show ?thesis by blast
qed

section \<open>Publishing and reading the cache\<close>



section \<open>The hook on an empty cache\<close>



section \<open>Attach\<close>

text \<open>
  C6. When no handler of the client's \<^verbatim>\<open>Handlers.Sign\<close> list is named
  "v4.SignRequestHandler", \<^verbatim>\<open>Attach\<close> returns false and leaves the client and the
  Swapper (its cache, its factory, its configuration) as they were. When the list has a
  handler of that name, \<^verbatim>\<open>Attach\<close> returns true, every handler of that name now runs
  the caller's options followed by the hook, every other handler is as before, and the
  Swapper is unchanged.
\<close>

theorem Attach_swaps_named_handler:
  "((\<forall>h \<in> set (Sign c). Name h \<noteq> SignRequestHandler_Name) \<longrightarrow>
      Attach s c opts = (False, c, s)) \<and>
   ((\<exists>h \<in> set (Sign c). Name h = SignRequestHandler_Name) \<longrightarrow>
      Attach s c opts =
        (True,
         c\<lparr>Sign := map (\<lambda>h. if Name h = SignRequestHandler_Name
                              then h\<lparr>Fn := Sign_fn (opts @ [Swap_opt])\<rparr> else h) (Sign c)\<rparr>,
         s))"
proof (intro conjI impI)
  assume none: "\<forall>h \<in> set (Sign c). Name h \<noteq> SignRequestHandler_Name"
  then have "SwapNamed (Sign c) (BuildNamedHandler SignRequestHandler_Name (opts @ [Swap_opt])) =
      (Sign c, False)"
    by (intro SwapNamed_absent) (simp add: BuildNamedHandler_def)
  then show "Attach s c opts = (False, c, s)"
    by (simp add: Attach_def)
next
  assume "\<exists>h \<in> set (Sign c). Name h = SignRequestHandler_Name"
  then show "Attach s c opts =
        (True,
         c\<lparr>Sign := map (\<lambda>h. if Name h = SignRequestHandler_Name
                              then h\<lparr>Fn := Sign_fn (opts @ [Swap_opt])\<rparr> else h) (Sign c)\<rparr>,
         s)"
    by (simp add: Attach_def SwapNamed_eq BuildNamedHandler_def)
qed

theorem Attach_swaps_named_handler_witness:
  "Attach demo_swapper demo_client_v2 [] = (False, demo_client_v2, demo_swapper) \<and>
   Attach demo_swapper demo_client [] =
     (True,
      \<lparr>Sign = [\<lparr>Name = ''core.BuildContentLengthHandler'', Fn = Other_fn 0\<rparr>,
               \<lparr>Name = ''v4.SignRequestHandler'', Fn = Sign_fn [Swap_opt]\<rparr>],
       Config_Credentials = Some 7\<rparr>,
      demo_swapper)"
proof -
  have a: "\<forall>h \<in> set (Sign demo_client_v2). Name h \<noteq> SignRequestHandler_Name"
    by (simp add: demo_client_v2_def SignRequestHandler_Name_def)
  have b: "\<exists>h \<in> set (Sign demo_client). Name h = SignRequestHandler_Name"
    by (simp add: demo_client_def SignRequestHandler_Name_def)
  from Attach_swaps_named_handler [of demo_client_v2 demo_swapper "[]"] a
  have r1: "Attach demo_swapper demo_client_v2 [] = (False, demo_client_v2, demo_swapper)"
    by blast
  from Attach_swaps_named_handler [of demo_client demo_swapper "[]"] b
  have "Attach demo_swapper demo_client [] =
        (True,
         demo_client\<lparr>Sign := map (\<lambda>h. if Name h = SignRequestHandler_Name
                              then h\<lparr>Fn := Sign_fn ([] @ [Swap_opt])\<rparr> else h) (Sign demo_client)\<rparr>,
         demo_swapper)"
    by blast
  then have r2: "Attach demo_swapper demo_client [] =
     (True,
      \<lparr>Sign = [\<lparr>Name = ''core.BuildContentLengthHandler'', Fn = Other_fn 0\<rparr>,
               \<lparr>Name = ''v4.SignRequestHandler'', Fn = Sign_fn [Swap_opt]\<rparr>],
       Config_Credentials = Some 7\<rparr>,
      demo_swapper)"
    by (simp add: demo_client_def SignRequestHandler_Name_def)
  from r1 r2 show ?thesis by blast
qed

section \<open>The loops of Run\<close>



section \<open>Diagnostics\<close>

text \<open>
  C8, as the code has it. A tick of \<^verbatim>\<open>Swapper.Run\<close> whose refresh returns an error calls
  the logger once, with "msg", "failed to refresh aws credentials", "err" and the error
  that \<^verbatim>\<open>refresh\<close> returned; a tick whose refresh returns nil logs nothing. A tick of
  \<^verbatim>\<open>Refresher.Run\<close> whose \<^verbatim>\<open>Get\<close> returns an error calls the logger once, with the
  same message and that error; a tick whose \<^verbatim>\<open>Get\<close> succeeds logs nothing. The signing
  hook calls the logger once, with "msg", "failed to swap aws credentials", when the cache
  does not hold a non-nil credentials pointer, and logs nothing when it does.
\<close>

theorem diagnostics_as_logged:
  "(refresh Get s w = Returns (Some err, s') w' \<longrightarrow>
      Swapper_Run Get s [time_After] w =
        Waiting s (logger (Swapper.conf s)
          [KStr ''msg'', KStr ''failed to refresh aws credentials'', KStr ''err'', KErr err] w')) \<and>
   (refresh Get s w = Returns (None, s') w' \<longrightarrow>
      Swapper_Run Get s [time_After] w = Waiting s' w') \<and>
   (Refresher.creds r = Some c \<and> Get c w = (Some e, w') \<longrightarrow>
      Refresher_Run Get r [time_After] w =
        Waiting r (logger (Refresher.conf r)
          [KStr ''msg'', KStr ''failed to refresh aws credentials'', KStr ''err'', KErr e] w')) \<and>
   (Refresher.creds r = Some c \<and> Get c w = (None, w') \<longrightarrow>
      Refresher_Run Get r [time_After] w = Waiting r w') \<and>
   ((\<forall>c. cache s \<noteq> Creds_iface (Some c)) \<longrightarrow>
      swap_hook s signer w =
        (signer, logger (Swapper.conf s) [KStr ''msg'', KStr ''failed to swap aws credentials''] w)) \<and>
   (cache s = Creds_iface (Some c) \<longrightarrow> snd (swap_hook s signer w) = w)"
proof (intro conjI impI)
  assume r: "refresh Get s w = Returns (Some err, s') w'"
  with refresh_error_same [OF r]
  show "Swapper_Run Get s [time_After] w =
        Waiting s (logger (Swapper.conf s)
          [KStr ''msg'', KStr ''failed to refresh aws credentials'', KStr ''err'', KErr err] w')"
    by simp
next
  assume "refresh Get s w = Returns (None, s') w'"
  then show "Swapper_Run Get s [time_After] w = Waiting s' w'" by simp
next
  assume "Refresher.creds r = Some c \<and> Get c w = (Some e, w')"
  then show "Refresher_Run Get r [time_After] w =
        Waiting r (logger (Refresher.conf r)
          [KStr ''msg'', KStr ''failed to refresh aws credentials'', KStr ''err'', KErr e] w')"
    by (simp add: creds_Get_def)
next
  assume "Refresher.creds r = Some c \<and> Get c w = (None, w')"
  then show "Refresher_Run Get r [time_After] w = Waiting r w'"
    by (simp add: creds_Get_def)
next
  assume "\<forall>c. cache s \<noteq> Creds_iface (Some c)"
  then show "swap_hook s signer w =
        (signer, logger (Swapper.conf s) [KStr ''msg'', KStr ''failed to swap aws credentials''] w)"
    by (rule swap_hook_miss)
next
  assume "cache s = Creds_iface (Some c)"
  then show "snd (swap_hook s signer w) = w"
    by (simp add: swap_hook_hit)
qed

theorem diagnostics_as_logged_witness:
  "Swapper_Run demo_Get demo_swapper [time_After] (2, []) =
     Waiting demo_swapper
       (3, [[KStr ''msg'', KStr ''failed to refresh aws credentials'', KStr ''err'',
             KErr (Wrapf ''failed to retrieve credentials value: '' (Errorf ''expired token''))]]) \<and>
   Refresher_Run demo_Get demo_refresher [time_After] (0, []) =
     Waiting demo_refresher
       (0, [[KStr ''msg'', KStr ''failed to refresh aws credentials'', KStr ''err'',
             KErr (Errorf ''expired token'')]]) \<and>
   swap_hook demo_empty demo_signer (0, []) =
     (demo_signer, (0, [[KStr ''msg'', KStr ''failed to swap aws credentials'']])) \<and>
   snd (swap_hook demo_swapper demo_signer (0, [])) = (0, [])"
proof -
  note T = diagnostics_as_logged [where Get = demo_Get]
  have g: "Refresher.creds demo_refresher = Some 3 \<and>
      demo_Get 3 (0, []) = (Some (Errorf ''expired token''), (0, []))"
    by (simp add: demo_refresher_def demo_Get_def)
  have m: "\<forall>c. cache demo_empty \<noteq> Creds_iface (Some c)"
    by (simp add: demo_empty_def)
  have h: "cache demo_swapper = Creds_iface (Some 2)"
    by (simp add: demo_swapper_def)
  have l: "logger (Swapper.conf demo_swapper) = demo_logger"
    "logger (Swapper.conf demo_empty) = demo_logger"
    "logger (Refresher.conf demo_refresher) = demo_logger"
    by (simp_all add: demo_swapper_def demo_empty_def demo_refresher_def)
  from T [where s = demo_swapper and w = "(2, [])" and s' = demo_swapper and w' = "(3, [])"]
    demo_refresh_Get_error l
  have r1: "Swapper_Run demo_Get demo_swapper [time_After] (2, []) =
     Waiting demo_swapper
       (3, [[KStr ''msg'', KStr ''failed to refresh aws credentials'', KStr ''err'',
             KErr (Wrapf ''failed to retrieve credentials value: '' (Errorf ''expired token''))]])"
    by (simp add: demo_logger_def)
  from T [where r = demo_refresher and w = "(0, [])" and c = 3 and w' = "(0, [])"
      and e = "Errorf ''expired token''"] g l
  have r2: "Refresher_Run demo_Get demo_refresher [time_After] (0, []) =
     Waiting demo_refresher
       (0, [[KStr ''msg'', KStr ''failed to refresh aws credentials'', KStr ''err'',
             KErr (Errorf ''expired token'')]])"
    by (simp add: demo_logger_def)
  from T [where s = demo_empty and signer = demo_signer and w = "(0, [])"] m l
  have r3: "swap_hook demo_empty demo_signer (0, []) =
     (demo_signer, (0, [[KStr ''msg'', KStr ''failed to swap aws credentials'']]))"
    by (simp add: demo_logger_def)
  from T [where s = demo_swapper and c = 2 and signer = demo_signer and w = "(0, [])"] h
  have r4: "snd (swap_hook demo_swapper demo_signer (0, [])) = (0, [])"
    by blast
  from r1 r2 r3 r4 show ?thesis by blast
qed

text \<open>
  The messages in the spec's wording, "failed to refresh credentials" and "failed to swap
  credentials", are not the ones logged: the code's messages say "aws credentials".
\<close>

theorem spec_messages_counterexample:
  "Swapper_Run demo_Get demo_swapper [time_After] (2, []) =
     Waiting demo_swapper
       (3, [[KStr ''msg'', KStr ''failed to refresh aws credentials'', KStr ''err'',
             KErr (Wrapf ''failed to retrieve credentials value: '' (Errorf ''expired token''))]]) \<and>
   Swapper_Run demo_Get demo_swapper [time_After] (2, []) \<noteq>
     Waiting demo_swapper
       (3, [[KStr ''msg'', KStr ''failed to refresh credentials'', KStr ''err'',
             KErr (Wrapf ''failed to retrieve credentials value: '' (Errorf ''expired token''))]]) \<and>
   Refresher_Run demo_Get demo_refresher [time_After] (0, []) =
     Waiting demo_refresher
       (0, [[KStr ''msg'', KStr ''failed to refresh aws credentials'', KStr ''err'',
             KErr (Errorf ''expired token'')]]) \<and>
   Refresher_Run demo_Get demo_refresher [time_After] (0, []) \<noteq>
     Waiting demo_refresher
       (0, [[KStr ''msg'', KStr ''failed to refresh credentials'', KStr ''err'',
             KErr (Errorf ''expired token'')]]) \<and>
   swap_hook demo_empty demo_signer (0, []) =
     (demo_signer, (0, [[KStr ''msg'', KStr ''failed to swap aws credentials'']])) \<and>
   swap_hook demo_empty demo_signer (0, []) \<noteq>
     (demo_signer, (0, [[KStr ''msg'', KStr ''failed to swap credentials'']]))"
proof -
  have a: "Swapper_Run demo_Get demo_swapper [time_After] (2, []) =
     Waiting demo_swapper
       (3, [[KStr ''msg'', KStr ''failed to refresh aws credentials'', KStr ''err'',
             KErr (Wrapf ''failed to retrieve credentials value: '' (Errorf ''expired token''))]])"
    by (simp add: demo_refresh_Get_error) (simp add: demo_swapper_def demo_logger_def)
  have b: "Refresher_Run demo_Get demo_refresher [time_After] (0, []) =
     Waiting demo_refresher
       (0, [[KStr ''msg'', KStr ''failed to refresh aws credentials'', KStr ''err'',
             KErr (Errorf ''expired token'')]])"
    by (simp add: creds_Get_def demo_refresher_def demo_Get_def demo_logger_def)
  have c: "swap_hook demo_empty demo_signer (0, []) =
     (demo_signer, (0, [[KStr ''msg'', KStr ''failed to swap aws credentials'']]))"
    by (simp add: swap_hook_def Load_def demo_empty_def demo_swapper_def demo_logger_def)
  show ?thesis
    unfolding a b c by simp
qed

section \<open>The cache of a constructed Swapper\<close>

text \<open>
  C10. A Swapper that \<^verbatim>\<open>NewSwapper\<close> returned holds a non-nil credentials pointer
  in its cache, and so does the Swapper at every later moment of \<^verbatim>\<open>Run\<close>, whether the
  loop is waiting or has returned, after any ticks in any worlds. The type assertion of the
  hook therefore succeeds with a non-nil pointer, and the hook sets the signer's
  \<^verbatim>\<open>Credentials\<close> and logs nothing: its other branch is not taken.
\<close>

theorem cache_always_holds_credentials:
  "NewSwapper Get nc opts w = Returns (Inr s) w1 \<Longrightarrow>
   Swapper_Run Get s cs w2 = Waiting s' w3 \<or> Swapper_Run Get s cs w2 = Returned s' w3 \<Longrightarrow>
   \<exists>c. cache s' = Creds_iface (Some c) \<and>
       assert_Credentials (Load (cache s')) = (Some c, True) \<and>
       swap_hook s' signer w4 = (signer\<lparr>Credentials := Some c\<rparr>, w4)"
proof -
  assume new: "NewSwapper Get nc opts w = Returns (Inr s) w1"
    and run: "Swapper_Run Get s cs w2 = Waiting s' w3 \<or> Swapper_Run Get s cs w2 = Returned s' w3"
  from NewSwapper_Inr [OF new] have "\<exists>c. cache s = Creds_iface (Some c)" by auto
  from Swapper_Run_cache [OF run this] obtain c where c: "cache s' = Creds_iface (Some c)"
    by blast
  then show ?thesis by (simp add: swap_hook_hit Load_def)
qed

theorem cache_always_holds_credentials_witness:
  "swap_hook demo_swapper demo_signer (1, []) = (demo_signer\<lparr>Credentials := Some 2\<rparr>, (1, [])) \<and>
   swap_hook (demo_swapper\<lparr>cache := Creds_iface (Some 4)\<rparr>) demo_signer (9, []) =
     (demo_signer\<lparr>Credentials := Some 4\<rparr>, (9, []))"
proof -
  have run0: "Swapper_Run demo_Get demo_swapper [] (1, []) = Waiting demo_swapper (1, []) \<or>
      Swapper_Run demo_Get demo_swapper [] (1, []) = Returned demo_swapper (1, [])"
    by simp
  from cache_always_holds_credentials [OF demo_NewSwapper run0, of demo_signer "(1, [])"]
  have r1: "swap_hook demo_swapper demo_signer (1, []) = (demo_signer\<lparr>Credentials := Some 2\<rparr>, (1, []))"
    by (auto simp: demo_swapper_def)
  from cache_always_holds_credentials [OF demo_NewSwapper disjI1 [OF demo_three_ticks], of demo_signer "(9, [])"]
  have r2: "swap_hook (demo_swapper\<lparr>cache := Creds_iface (Some 4)\<rparr>) demo_signer (9, []) =
     (demo_signer\<lparr>Credentials := Some 4\<rparr>, (9, []))"
    by auto
  from r1 r2 show ?thesis by blast
qed

end
